theory Spec2Isabelle
  imports Complex_Main "HOL-Library.AList" "HOL-Library.Multiset" "HOL-Library.Product_Lexorder"
begin

section \<open>Values\<close>

text \<open>
  The objects that \<^verbatim>\<open>json.load\<close> and \<^verbatim>\<open>request.get_json\<close> hand to the program.
  A Python \<^verbatim>\<open>dict\<close> is an association list in insertion order; its keys are distinct,
  and a lookup is \<open>map_of\<close>. A Python \<^verbatim>\<open>float\<close> is modelled by the real number it
  denotes: rounding, overflow, infinities and NaN are outside the model.
\<close>

datatype json =
    JNull
  | JBool bool
  | JInt int
  | JFloat real
  | JStr string
  | JList "json list"
  | JDict "(string \<times> json) list"

type_synonym event = "(string \<times> json) list"

text \<open>
  What the program takes from its surroundings. From the Python runtime:
  \<^verbatim>\<open>float(s)\<close> for a \<^verbatim>\<open>str\<close> (\<open>None\<close> is \<^verbatim>\<open>ValueError\<close>) and \<^verbatim>\<open>str(v)\<close>.
  From the process environment: \<^verbatim>\<open>REPLAY_DEFAULT_SPEED\<close>, \<^verbatim>\<open>REPLAY_DEFAULT_EVENTS_PATH\<close>
  and \<^verbatim>\<open>REPLAY_NO_CLIENT_GATE\<close>. From helpers whose results only fill the text fields of
  a history entry: the command text of \<^verbatim>\<open>_format_event_command\<close>, the rewriting of
  \<^verbatim>\<open>(result, is_error)\<close> by \<^verbatim>\<open>normalize_grep_no_match\<close>, and, for \<^verbatim>\<open>bash_notify\<close>,
  the pair \<^verbatim>\<open>(result, is_error)\<close> computed from the history, the command and the exit code.
\<close>

record host =
  float_of_str :: "string \<Rightarrow> real option"
  str_of :: "json \<Rightarrow> string"
  default_speed :: real
  default_events_path :: string
  no_client_gate :: bool
  format_event_command :: "event \<Rightarrow> string"
  normalize_grep_no_match :: "json \<Rightarrow> json \<Rightarrow> json \<Rightarrow> json \<times> json"
  bash_result :: "event list \<Rightarrow> json \<Rightarrow> json \<Rightarrow> json \<times> json"

text \<open>\<^verbatim>\<open>float(v)\<close>; \<open>None\<close> stands for the \<^verbatim>\<open>TypeError\<close> or \<^verbatim>\<open>ValueError\<close> it raises.\<close>

fun py_float :: "host \<Rightarrow> json \<Rightarrow> real option" where
  "py_float h JNull = None"
| "py_float h (JBool b) = Some (if b then 1 else 0)"
| "py_float h (JInt n) = Some (real_of_int n)"
| "py_float h (JFloat r) = Some r"
| "py_float h (JStr s) = float_of_str h s"
| "py_float h (JList xs) = None"
| "py_float h (JDict kvs) = None"

text \<open>\<^verbatim>\<open>d.get(k, default)\<close>.\<close>

definition dict_get :: "event \<Rightarrow> string \<Rightarrow> json \<Rightarrow> json" where
  "dict_get d k dflt = (case map_of d k of None \<Rightarrow> dflt | Some v \<Rightarrow> v)"

datatype py_error = ValueError string

section \<open>Event loader\<close>

text \<open>
  \<^verbatim>\<open>_load_replay_events\<close>, from the parsed document on. A wrapper object is unwrapped
  at the key \<^verbatim>\<open>events\<close>, else at \<^verbatim>\<open>data\<close>, when the value there is a list.
\<close>

fun is_list :: "json \<Rightarrow> bool" where
  "is_list (JList xs) = True"
| "is_list v = False"

fun unwrap_payload :: "json \<Rightarrow> json" where
  "unwrap_payload (JDict kvs) =
     (if is_list (dict_get kvs ''events'' JNull) then dict_get kvs ''events'' JNull
      else if is_list (dict_get kvs ''data'' JNull) then dict_get kvs ''data'' JNull
      else JDict kvs)"
| "unwrap_payload v = v"

text \<open>
  The body of the \<^verbatim>\<open>try\<close> and its \<^verbatim>\<open>except Exception\<close>: the record is copied and its
  \<^verbatim>\<open>timestamp\<close> is overwritten by the converted value, or by 0.0 when the conversion raises.
\<close>

definition normalize :: "host \<Rightarrow> event \<Rightarrow> event" where
  "normalize h ev =
     AList.update ''timestamp''
       (JFloat (case py_float h (dict_get ev ''timestamp'' (JFloat 0)) of
                  None \<Rightarrow> 0 | Some r \<Rightarrow> r)) ev"

text \<open>The \<^verbatim>\<open>for idx, event in enumerate(payload)\<close> loop, from index \<open>idx\<close> on.\<close>

fun indexed_events :: "host \<Rightarrow> nat \<Rightarrow> json list \<Rightarrow> (nat \<times> event) list" where
  "indexed_events h idx [] = []"
| "indexed_events h idx (JDict ev # rest) = (idx, normalize h ev) # indexed_events h (Suc idx) rest"
| "indexed_events h idx (v # rest) = indexed_events h (Suc idx) rest"

text \<open>The entries of the array that are records (\<^verbatim>\<open>dict\<close>s), in their order.\<close>

fun records :: "json list \<Rightarrow> event list" where
  "records [] = []"
| "records (JDict ev # rest) = ev # records rest"
| "records (v # rest) = records rest"

text \<open>
  \<^verbatim>\<open>row[1].get('timestamp', 0.0)\<close> as a number. After \<open>normalize\<close> the value is always a
  float, so the other cases are never taken.
\<close>

definition timestamp_of :: "event \<Rightarrow> real" where
  "timestamp_of ev = (case dict_get ev ''timestamp'' (JFloat 0) of JFloat r \<Rightarrow> r | _ \<Rightarrow> 0)"

fun sort_row_key :: "nat \<times> event \<Rightarrow> real \<times> nat" where
  "sort_row_key (idx, ev) = (timestamp_of ev, idx)"

definition load_replay_events :: "host \<Rightarrow> json \<Rightarrow> py_error + event list" where
  "load_replay_events h payload =
     (case unwrap_payload payload of
        JList xs \<Rightarrow> Inr (map snd (sort_key sort_row_key (indexed_events h 0 xs)))
      | _ \<Rightarrow> Inl (ValueError ''events file must be a JSON array''))"

section \<open>Command history\<close>

text \<open>
  A history entry is a Python \<^verbatim>\<open>dict\<close>. A reading of the clock is the pair of
  \<^verbatim>\<open>now.isoformat()\<close> and \<^verbatim>\<open>int(now.timestamp() * 1000)\<close>.
\<close>

type_synonym entry = "(string \<times> json) list"

type_synonym clock = "string \<times> int"

definition MAX_HISTORY :: nat where
  "MAX_HISTORY = 100"

definition timestamp_payload :: "clock \<Rightarrow> entry" where
  "timestamp_payload now = [(''timestamp'', JStr (fst now)), (''ts_ms'', JInt (snd now))]"

text \<open>\<^verbatim>\<open>d.update(other)\<close>.\<close>

definition dict_update :: "entry \<Rightarrow> entry \<Rightarrow> entry" where
  "dict_update d other = AList.updates (map fst other) (map snd other) d"

text \<open>
  The two statements that follow every construction of an entry:
  \<^verbatim>\<open>command_history.append(entry)\<close>, then \<^verbatim>\<open>command_history.pop(0)\<close> when the length
  exceeds \<^verbatim>\<open>MAX_HISTORY\<close>.
\<close>

definition history_append :: "entry list \<Rightarrow> entry \<Rightarrow> entry list" where
  "history_append hist e =
     (let hist' = hist @ [e] in if length hist' > MAX_HISTORY then tl hist' else hist')"

text \<open>
  \<^verbatim>\<open>log_command\<close> returns the new history and the entry, which is also what it
  broadcasts as \<^verbatim>\<open>command_executed\<close>.
\<close>

definition log_command :: "clock \<Rightarrow> entry list \<Rightarrow> json \<Rightarrow> json \<Rightarrow> json \<Rightarrow> json \<Rightarrow> entry list \<times> entry" where
  "log_command now hist source command result is_error =
     (let entry = dict_update
                    [(''source'', source), (''command'', command),
                     (''result'', result), (''is_error'', is_error)]
                    (timestamp_payload now)
      in (history_append hist entry, entry))"

text \<open>Python truthiness, for \<^verbatim>\<open>if data:\<close> and \<^verbatim>\<open>x or y\<close>.\<close>

fun truthy :: "json \<Rightarrow> bool" where
  "truthy JNull = False"
| "truthy (JBool b) = b"
| "truthy (JInt n) = (n \<noteq> 0)"
| "truthy (JFloat r) = (r \<noteq> 0)"
| "truthy (JStr s) = (s \<noteq> [])"
| "truthy (JList xs) = (xs \<noteq> [])"
| "truthy (JDict kvs) = (kvs \<noteq> [])"

text \<open>
  \<^verbatim>\<open>terminal_notify\<close> on the request body \<open>data\<close> (\<open>JNull\<close> when there is none).
  The result is the \<^verbatim>\<open>success\<close> flag of the response, the new history and the entry
  broadcast, if any. A body that is truthy but not a \<^verbatim>\<open>dict\<close> has no \<^verbatim>\<open>get\<close>:
  the exception is swallowed and the request fails like an empty one.
\<close>

definition terminal_notify :: "host \<Rightarrow> clock \<Rightarrow> entry list \<Rightarrow> json \<Rightarrow> bool \<times> entry list \<times> entry option" where
  "terminal_notify h now hist data =
     (if \<not> truthy data then (False, hist, None)
      else case data of
        JDict d \<Rightarrow>
          (let command = dict_get d ''command'' (JStr []);
               result = dict_get d ''result'' JNull;
               is_error = dict_get d ''is_error'' (JBool False);
               (result, is_error) = normalize_grep_no_match h command result is_error;
               ts = dict_get d ''timestamp'' JNull;
               ts_ms = dict_get d ''ts_ms'' JNull;
               entry = [(''source'', JStr ''terminal''), (''command'', command),
                        (''result'', result), (''is_error'', is_error)];
               entry = (if ts \<noteq> JNull then AList.update ''timestamp'' ts entry else entry);
               entry = (if ts_ms \<noteq> JNull then AList.update ''ts_ms'' ts_ms entry else entry);
               entry = (if map_of entry ''timestamp'' = None \<or> map_of entry ''ts_ms'' = None
                        then dict_update entry (timestamp_payload now) else entry)
           in (True, history_append hist entry, Some entry))
      | _ \<Rightarrow> (False, hist, None))"

text \<open>
  \<^verbatim>\<open>bash_notify\<close>, up to its broadcast of the entry: the new history and the entry. The
  response is left out, since it also depends on \<^verbatim>\<open>broadcast_bash_operation\<close>, which runs
  after the history is written.
\<close>

definition bash_notify :: "host \<Rightarrow> clock \<Rightarrow> entry list \<Rightarrow> json \<Rightarrow> entry list \<times> entry option" where
  "bash_notify h now hist data =
     (if \<not> truthy data then (hist, None)
      else case data of
        JDict d \<Rightarrow>
          (let command = dict_get d ''command'' (JStr []);
               exit_code = dict_get d ''exit_code'' (JInt 0);
               (result, is_error) = bash_result h hist command exit_code;
               (result, is_error) = normalize_grep_no_match h command result is_error;
               entry = dict_update
                         [(''source'', JStr ''terminal''), (''command'', command),
                          (''result'', result), (''is_error'', is_error)]
                         (timestamp_payload now)
           in (history_append hist entry, Some entry))
      | _ \<Rightarrow> (hist, None))"

text \<open>
  One request on the history, by any of the three producers, and a sequence of them from
  the empty history. Beside the history goes the list of the entries broadcast as
  \<^verbatim>\<open>command_executed\<close>, which are the entries appended, in the order of their appends.
\<close>

datatype producer =
    LogCommand clock json json json json
  | TerminalNotify clock json
  | BashNotify clock json

fun produce :: "host \<Rightarrow> entry list \<times> entry list \<Rightarrow> producer \<Rightarrow> entry list \<times> entry list" where
  "produce h (hist, sent) (LogCommand now source command result is_error) =
     (case log_command now hist source command result is_error of
        (hist', e) \<Rightarrow> (hist', sent @ [e]))"
| "produce h (hist, sent) (TerminalNotify now data) =
     (case terminal_notify h now hist data of
        (ok, hist', None) \<Rightarrow> (hist', sent)
      | (ok, hist', Some e) \<Rightarrow> (hist', sent @ [e]))"
| "produce h (hist, sent) (BashNotify now data) =
     (case bash_notify h now hist data of
        (hist', None) \<Rightarrow> (hist', sent)
      | (hist', Some e) \<Rightarrow> (hist', sent @ [e]))"

definition produce_all :: "host \<Rightarrow> producer list \<Rightarrow> entry list \<times> entry list" where
  "produce_all h ps = foldl (produce h) ([], []) ps"

text \<open>The history is the last \<^verbatim>\<open>MAX_HISTORY\<close> of the entries sent.\<close>

definition last_window :: "entry list \<times> entry list \<Rightarrow> bool" where
  "last_window c = (fst c = drop (length (snd c) - MAX_HISTORY) (snd c))"

section \<open>Shared replay state\<close>

text \<open>
  The module-level \<^verbatim>\<open>replay_state\<close> dictionary, whose keys never change, as a record.
  Times are the \<^verbatim>\<open>isoformat()\<close> text of a clock reading.
\<close>

record replay_state =
  running :: bool
  completed :: bool
  session_id :: int
  events_path :: string
  speed :: real
  events_total :: nat
  events_sent :: nat
  last_event_type :: string
  last_event_ts :: "real option"
  started_at :: "string option"
  finished_at :: "string option"
  error :: "string option"

definition initial_replay_state :: "host \<Rightarrow> replay_state" where
  "initial_replay_state h =
     \<lparr>running = False, completed = False, session_id = 0, events_path = [],
      speed = default_speed h, events_total = 0, events_sent = 0, last_event_type = [],
      last_event_ts = None, started_at = None, finished_at = None, error = None\<rparr>"

text \<open>
  \<^verbatim>\<open>_stop_replay_session(reason)\<close> at clock reading \<open>now\<close>. The snapshot it returns and
  broadcasts is the new state.
\<close>

definition stop_replay_session :: "replay_state \<Rightarrow> string \<Rightarrow> string \<Rightarrow> replay_state" where
  "stop_replay_session st reason now =
     st\<lparr>running := False,
        completed := False,
        session_id := session_id st + 1,
        finished_at := Some now,
        error := (if reason = ''stopped'' \<or> reason = [] then None else Some reason)\<rparr>"

text \<open>The arguments the worker thread is started with.\<close>

record worker_args =
  w_session_id :: int
  w_events_path :: string
  w_events :: "event list"
  w_speed :: real

text \<open>
  \<^verbatim>\<open>_start_replay_session(events_path, speed)\<close>, where \<open>payload\<close> is the parsed content of
  the file at \<open>events_path\<close>. An exception leaves the state as it was; otherwise the
  result is the new state (also the snapshot returned) and the arguments of the worker
  thread that is started.
\<close>

definition start_replay_session ::
    "host \<Rightarrow> replay_state \<Rightarrow> string \<Rightarrow> json \<Rightarrow> real \<Rightarrow> string \<Rightarrow> py_error + replay_state \<times> worker_args" where
  "start_replay_session h st path payload spd now =
     (case load_replay_events h payload of
        Inl e \<Rightarrow> Inl e
      | Inr events \<Rightarrow>
          if events = [] then Inl (ValueError ''events file is empty'')
          else
            let st' = st\<lparr>running := True,
                          completed := False,
                          session_id := session_id st + 1,
                          events_path := path,
                          speed := max 0.05 (if spd = 0 then 1 else spd),
                          events_total := length events,
                          events_sent := 0,
                          last_event_type := [],
                          last_event_ts := None,
                          started_at := Some now,
                          finished_at := None,
                          error := None\<rparr>
            in Inr (st', \<lparr>w_session_id = session_id st', w_events_path = path,
                          w_events = events, w_speed = speed st'\<rparr>))"

text \<open>
  The \<^verbatim>\<open>/api/replay/start\<close> handler. \<open>d\<close> is the request body, a JSON object
  (\<^verbatim>\<open>{}\<close> when there is none), \<open>raw\<close> the stripped text of its \<^verbatim>\<open>path\<close> field, \<open>resolved\<close> what
  \<^verbatim>\<open>_resolve_replay_events_path\<close> finds for it on disk and \<open>payload\<close> the parsed content of
  that file. \<open>now_stop\<close> is the clock when a running session is stopped, \<open>now\<close> the clock of
  the start or of the failure. The result is the response, the new state and the worker
  started, if any.
\<close>

datatype response = Success replay_state | Failure nat string

definition replay_start ::
    "host \<Rightarrow> replay_state \<Rightarrow> event \<Rightarrow> string \<Rightarrow> string option \<Rightarrow> json \<Rightarrow> string \<Rightarrow> string
       \<Rightarrow> response \<times> replay_state \<times> worker_args option" where
  "replay_start h st d raw resolved payload now_stop now =
     (let spd = (case py_float h (dict_get d ''speed'' (JFloat (default_speed h))) of
                   Some r \<Rightarrow> max 0.05 r
                 | None \<Rightarrow> default_speed h)
      in case resolved of
           None \<Rightarrow>
             (Failure 404 (''events file not found: '' @ (if raw \<noteq> [] then raw else default_events_path h)),
              st, None)
         | Some path \<Rightarrow>
             let st1 = (if running st then stop_replay_session st ''restarted'' now_stop else st)
             in case start_replay_session h st1 path payload spd now of
                  Inr (st2, args) \<Rightarrow> (Success st2, st2, Some args)
                | Inl (ValueError msg) \<Rightarrow>
                    (Failure 400 msg,
                     st1\<lparr>running := False, completed := False, events_path := path,
                         error := Some msg, finished_at := Some now\<rparr>,
                     None))"

text \<open>The \<^verbatim>\<open>/api/replay/stop\<close> handler: the snapshot of its response, which is the new state.\<close>

definition replay_stop :: "replay_state \<Rightarrow> string \<Rightarrow> replay_state" where
  "replay_stop st now = stop_replay_session st ''stopped'' now"

section \<open>Replay worker\<close>

text \<open>
  The worker thread runs beside the request handlers, and only its reads and writes of
  the replay state are under \<^verbatim>\<open>replay_state_lock\<close>. It is therefore a machine that takes
  one step at a time, a step being at most one locked section or one emission; other
  threads may act on the shared state between any two steps.
\<close>

record shared =
  rstate :: replay_state
  history :: "entry list"
  clients :: nat

text \<open>
  What the worker sends to the observers: a \<^verbatim>\<open>replay_event\<close> payload (session id, index,
  total, event, events path, sent-at time), a \<^verbatim>\<open>command_executed\<close> entry, or a
  \<^verbatim>\<open>replay_state\<close> snapshot.
\<close>

datatype emission =
    ReplayEvent int nat nat event string string
  | CommandExecuted entry
  | ReplayState replay_state

text \<open>
  The places of \<^verbatim>\<open>_replay_worker\<close> between which another thread can run:
  \<open>Start\<close> computes \<^verbatim>\<open>base_ts\<close>; \<open>Check1\<close> is the head of the loop and its first locked
  check; \<open>Sleep\<close> computes \<^verbatim>\<open>current_ts\<close> and sleeps; \<open>Check2\<close> is the check after the
  sleep; \<open>WaitCheck\<close> and \<open>WaitClients\<close> are the two locked sections of
  \<^verbatim>\<open>_wait_for_replay_client\<close>; \<open>Emit\<close>, \<open>Log\<close> and \<open>Update\<close> are the three calls that
  end an iteration; \<open>Final\<close> is the update after the loop. \<open>Returned\<close> is a \<^verbatim>\<open>return\<close>
  from inside the loop, \<open>Finished\<close> the end of the function, \<open>Raised\<close> an exception that
  ends the thread.
\<close>

datatype pc =
    Start | Check1 | Sleep | Check2 | WaitCheck | WaitClients | Emit | Log | Update | Final
  | Returned | Finished | Raised

record worker =
  pc :: pc
  idx :: nat
  remaining :: "event list"
  base_ts :: real
  current_ts :: real
  out :: "emission list"

definition init_worker :: "worker_args \<Rightarrow> worker" where
  "init_worker a =
     \<lparr>pc = Start, idx = 0, remaining = w_events a, base_ts = 0, current_ts = 0, out = []\<rparr>"

text \<open>The condition of every locked check: the session is not running or it is not ours.\<close>

definition stale :: "replay_state \<Rightarrow> int \<Rightarrow> bool" where
  "stale st sid = (\<not> running st \<or> session_id st \<noteq> sid)"

text \<open>
  One step of the worker at clock reading \<open>now\<close>. \<open>remaining\<close> is what the loop's iterator
  has still to yield, the current event first; inside an iteration it is never empty.
\<close>

definition worker_step :: "host \<Rightarrow> worker_args \<Rightarrow> clock \<Rightarrow> worker \<times> shared \<Rightarrow> worker \<times> shared" where
  "worker_step h a now c =
     (case c of (w, s) \<Rightarrow>
       (case pc w of
          Start \<Rightarrow>
            (case w_events a of
               [] \<Rightarrow> (w\<lparr>pc := Check1, base_ts := 0\<rparr>, s)
             | e # _ \<Rightarrow>
                 (case py_float h (dict_get e ''timestamp'' (JFloat 0)) of
                    None \<Rightarrow> (w\<lparr>pc := Raised\<rparr>, s)
                  | Some b \<Rightarrow> (w\<lparr>pc := Check1, base_ts := b\<rparr>, s)))
        | Check1 \<Rightarrow>
            (case remaining w of
               [] \<Rightarrow> (w\<lparr>pc := Final\<rparr>, s)
             | ev # rest \<Rightarrow>
                 if stale (rstate s) (w_session_id a) then (w\<lparr>pc := Returned\<rparr>, s)
                 else (w\<lparr>pc := Sleep\<rparr>, s))
        | Sleep \<Rightarrow>
            (case remaining w of
               [] \<Rightarrow> (w, s)
             | ev # rest \<Rightarrow>
                 (case py_float h (dict_get ev ''timestamp'' (JFloat (base_ts w))) of
                    None \<Rightarrow> (w\<lparr>pc := Raised\<rparr>, s)
                  | Some t \<Rightarrow> (w\<lparr>pc := Check2, current_ts := t\<rparr>, s)))
        | Check2 \<Rightarrow>
            if stale (rstate s) (w_session_id a) then (w\<lparr>pc := Returned\<rparr>, s)
            else (w\<lparr>pc := WaitCheck\<rparr>, s)
        | WaitCheck \<Rightarrow>
            if stale (rstate s) (w_session_id a) then (w\<lparr>pc := Returned\<rparr>, s)
            else if no_client_gate h then (w\<lparr>pc := Emit\<rparr>, s)
            else (w\<lparr>pc := WaitClients\<rparr>, s)
        | WaitClients \<Rightarrow>
            if clients s > 0 then (w\<lparr>pc := Emit\<rparr>, s) else (w\<lparr>pc := WaitCheck\<rparr>, s)
        | Emit \<Rightarrow>
            (case remaining w of
               [] \<Rightarrow> (w, s)
             | ev # rest \<Rightarrow>
                 (w\<lparr>pc := Log,
                    out := out w @ [ReplayEvent (w_session_id a) (idx w) (length (w_events a)) ev
                                      (w_events_path a) (fst now)]\<rparr>, s))
        | Log \<Rightarrow>
            (case remaining w of
               [] \<Rightarrow> (w, s)
             | ev # rest \<Rightarrow>
                 (case log_command now (history s) (JStr ''agent'') (JStr (format_event_command h ev))
                         (JDict [(''success'', JBool True),
                                 (''event_type'', dict_get ev ''event_type'' (JStr ''event''))])
                         (JBool False) of
                    (hist', e) \<Rightarrow>
                      (w\<lparr>pc := Update, out := out w @ [CommandExecuted e]\<rparr>, s\<lparr>history := hist'\<rparr>)))
        | Update \<Rightarrow>
            (case remaining w of
               [] \<Rightarrow> (w, s)
             | ev # rest \<Rightarrow>
                 (let st' = (rstate s)\<lparr>events_sent := idx w + 1,
                                       last_event_type := str_of h (dict_get ev ''event_type'' (JStr [])),
                                       last_event_ts := Some (current_ts w)\<rparr>
                  in (w\<lparr>pc := Check1, idx := idx w + 1, remaining := rest,
                         out := out w @ [ReplayState st']\<rparr>, s\<lparr>rstate := st'\<rparr>)))
        | Final \<Rightarrow>
            (let st' = (rstate s)\<lparr>running := False, completed := True,
                                  finished_at := Some (fst now), error := None\<rparr>
             in (w\<lparr>pc := Finished, out := out w @ [ReplayState st']\<rparr>, s\<lparr>rstate := st'\<rparr>))
        | Returned \<Rightarrow> (w, s)
        | Finished \<Rightarrow> (w, s)
        | Raised \<Rightarrow> (w, s)))"

text \<open>
  What other threads do to the shared state: the stop and start of a session, and the
  connection and disconnection of an observer.
\<close>

definition env_stop :: "string \<Rightarrow> string \<Rightarrow> shared \<Rightarrow> shared" where
  "env_stop reason now s = s\<lparr>rstate := stop_replay_session (rstate s) reason now\<rparr>"

definition env_start :: "host \<Rightarrow> string \<Rightarrow> json \<Rightarrow> real \<Rightarrow> string \<Rightarrow> shared \<Rightarrow> shared" where
  "env_start h path payload spd now s =
     (case start_replay_session h (rstate s) path payload spd now of
        Inl e \<Rightarrow> s
      | Inr (st', args) \<Rightarrow> s\<lparr>rstate := st'\<rparr>)"

definition handle_connect :: "shared \<Rightarrow> shared" where
  "handle_connect s = s\<lparr>clients := clients s + 1\<rparr>"

definition handle_disconnect :: "shared \<Rightarrow> shared" where
  "handle_disconnect s = s\<lparr>clients := (if clients s = 0 then 0 else clients s - 1)\<rparr>"

text \<open>
  A schedule says who moves next: the worker, at some clock reading, or another thread,
  with what it does to the shared state.
\<close>

datatype action = Worker clock | Env "shared \<Rightarrow> shared"

fun step :: "host \<Rightarrow> worker_args \<Rightarrow> worker \<times> shared \<Rightarrow> action \<Rightarrow> worker \<times> shared" where
  "step h a c (Worker now) = worker_step h a now c"
| "step h a (w, s) (Env f) = (w, f s)"

definition run :: "host \<Rightarrow> worker_args \<Rightarrow> worker \<times> shared \<Rightarrow> action list \<Rightarrow> worker \<times> shared" where
  "run h a c sched = foldl (step h a) c sched"


fun replay_events :: "emission list \<Rightarrow> emission list" where
  "replay_events [] = []"
| "replay_events (ReplayEvent sid i n ev p t # es) = ReplayEvent sid i n ev p t # replay_events es"
| "replay_events (e # es) = replay_events es"







text \<open>
  An action of another thread never lowers the session id: every writer of
  \<^verbatim>\<open>session_id\<close> adds one to it.
\<close>

definition epoch_monotone :: "(shared \<Rightarrow> shared) \<Rightarrow> bool" where
  "epoch_monotone f = (\<forall>s. session_id (rstate s) \<le> session_id (rstate (f s)))"

fun env_monotone :: "action \<Rightarrow> bool" where
  "env_monotone (Worker now) = True"
| "env_monotone (Env f) = epoch_monotone f"

text \<open>
  The events still to come from a worker whose checks have passed for the current
  iteration: one between the last check and the emission, none elsewhere.
\<close>

definition in_flight :: "worker \<Rightarrow> nat" where
  "in_flight w = (if pc w = WaitClients \<or> pc w = Emit then 1 else 0)"

section \<open>A concrete host\<close>

text \<open>
  A host for the examples: no string converts to a number, \<^verbatim>\<open>str\<close> is the identity on
  strings, the observer gate is on, and the helpers return fixed texts.
\<close>

definition example_host :: host where
  "example_host =
     \<lparr>float_of_str = (\<lambda>s. None),
      str_of = (\<lambda>v. case v of JStr s \<Rightarrow> s | _ \<Rightarrow> ''?''),
      default_speed = 1,
      default_events_path = ''/hippocamp/replay/events_clean.json'',
      no_client_gate = False,
      format_event_command = (\<lambda>ev. ''[replay] event''),
      normalize_grep_no_match = (\<lambda>command result is_error. (result, is_error)),
      bash_result = (\<lambda>hist command exit_code. (JNull, JBool False))\<rparr>"

text \<open>
  A session for the examples: the two events of a loaded trace, replayed at speed 10 as
  session 1, the first session of the process, with one observer connected.
\<close>

definition example_args :: worker_args where
  "example_args =
     \<lparr>w_session_id = 1, w_events_path = ''t.json'',
      w_events = [[(''timestamp'', JFloat 0), (''event_type'', JStr ''file_read'')],
                  [(''timestamp'', JFloat 1), (''event_type'', JStr ''file_write'')]],
      w_speed = 10\<rparr>"

definition example_shared :: shared where
  "example_shared =
     \<lparr>rstate = (initial_replay_state example_host)
                 \<lparr>running := True, session_id := 1, events_path := ''t.json'', speed := 10,
                  events_total := 2, started_at := Some ''12:00''\<rparr>,
      history = [], clients = 1\<rparr>"

text \<open>
  A schedule for the examples: the worker passes every check of its first iteration and
  is about to emit; then the session is restarted by another thread, which stops it and
  starts session 3 on another trace.
\<close>

definition restart_schedule :: "action list" where
  "restart_schedule =
     replicate 6 (Worker (''12:01'', 0))
     @ [Env (env_stop ''restarted'' ''12:02''),
        Env (env_start example_host ''u.json'' (JList [JDict [(''event_type'', JStr ''file_read'')]]) 1 ''12:02'')]"

section \<open>Properties of the event loader\<close>

lemma indexed_events_fst_ge: "(i, e) \<in> set (indexed_events h n xs) \<Longrightarrow> n \<le> i"
  by (induction h n xs rule: indexed_events.induct) (auto simp: Suc_le_eq dest: less_imp_le)

lemma indexed_events_sorted_fst: "sorted (map fst (indexed_events h n xs))"
proof (induction h n xs rule: indexed_events.induct)
  case (2 h i0 ev rest)
  have "\<forall>r \<in> set (indexed_events h (Suc i0) rest). i0 \<le> fst r"
    using indexed_events_fst_ge [of _ _ h "Suc i0" rest] by fastforce
  with 2 show ?case by simp
qed simp_all

lemma map_snd_indexed_events: "map snd (indexed_events h n xs) = map (normalize h) (records xs)"
  by (induction h n xs rule: indexed_events.induct) simp_all




text \<open>Rows that share a timestamp and are in index order are in key order.\<close>

lemma sorted_rows_same_ts:
  assumes "sorted (map fst rows)" "\<forall>r \<in> set rows. timestamp_of (snd r) = t"
  shows "sorted (map sort_row_key rows)"
  using assms
proof (induction rows)
  case (Cons r rows)
  obtain i e where r: "r = (i, e)" by (cases r)
  from Cons show ?case by (force simp: r)
qed simp

lemma filter_sorted_rows:
  assumes "sorted (map fst rows)"
  shows "filter (\<lambda>r. t = timestamp_of (snd r)) (sort_key sort_row_key rows)
       = filter (\<lambda>r. t = timestamp_of (snd r)) rows"
proof -
  let ?P = "\<lambda>r. t = timestamp_of (snd r)"
  have "sorted (map fst (filter ?P rows))"
    using assms by (simp add: sorted_filter)
  then have "sorted (map sort_row_key (filter ?P rows))"
    by (rule sorted_rows_same_ts [where t = t]) simp
  then have "sort_key sort_row_key (filter ?P rows) = filter ?P rows"
    by (rule sort_key_id_if_sorted)
  then show ?thesis by (simp add: filter_sort)
qed

lemma sorted_ts_of_sorted_rows:
  "sorted (map sort_row_key rows) \<Longrightarrow> sorted (map (timestamp_of \<circ> snd) rows)"
proof (induction rows)
  case (Cons r rows)
  obtain i e where r: "r = (i, e)" by (cases r)
  from Cons have "\<forall>x\<in>set rows. timestamp_of e \<le> timestamp_of (snd x)"
    by (auto simp: r) (metis less_eq_prod_simp order_less_imp_le sort_row_key.simps)
  with Cons show ?case by (simp add: r)
qed simp

text \<open>
  Sorting the rows by (timestamp, index) is the stable sort of the events by timestamp
  alone, when the rows come in index order.
\<close>

lemma stable_rows:
  assumes "sorted (map fst rows)"
  shows "map snd (sort_key sort_row_key rows) = sort_key timestamp_of (map snd rows)"
proof (rule properties_for_sort_key [symmetric])
  show "mset (map snd (sort_key sort_row_key rows)) = mset (map snd rows)"
    by simp
  show "sorted (map timestamp_of (map snd (sort_key sort_row_key rows)))"
    using sorted_ts_of_sorted_rows [of "sort_key sort_row_key rows"] by simp
next
  fix k assume "k \<in> set (map snd (sort_key sort_row_key rows))"
  have "filter (\<lambda>x. timestamp_of k = timestamp_of x) (map snd (sort_key sort_row_key rows))
      = map snd (filter (\<lambda>r. timestamp_of k = timestamp_of (snd r)) (sort_key sort_row_key rows))"
    by (simp add: filter_map comp_def)
  also have "\<dots> = map snd (filter (\<lambda>r. timestamp_of k = timestamp_of (snd r)) rows)"
    using assms by (simp only: filter_sorted_rows)
  also have "\<dots> = filter (\<lambda>x. timestamp_of k = timestamp_of x) (map snd rows)"
    by (simp add: filter_map comp_def)
  finally show "filter (\<lambda>x. timestamp_of k = timestamp_of x) (map snd (sort_key sort_row_key rows))
      = filter (\<lambda>x. timestamp_of k = timestamp_of x) (map snd rows)" .
qed

lemma load_replay_events_array:
  assumes "unwrap_payload payload = JList xs"
  shows "load_replay_events h payload = Inr (sort_key timestamp_of (map (normalize h) (records xs)))"
  using assms stable_rows [OF indexed_events_sorted_fst, of h 0 xs]
  by (simp add: load_replay_events_def map_snd_indexed_events)





section \<open>Properties of starting and stopping\<close>

lemma load_no_records:
  "unwrap_payload payload = JList xs \<Longrightarrow> records xs = [] \<Longrightarrow> load_replay_events h payload = Inr []"
  by (simp add: load_replay_events_array)

text \<open>
  Claim C6. When the loader returns no event, \<^verbatim>\<open>_start_replay_session\<close> raises
  \<^verbatim>\<open>ValueError('events file is empty')\<close>; the start handler answers with status 400 and
  that message, and starts no worker. An array none of whose entries is a record is
  such a trace.
\<close>

theorem empty_trace_rejected:
  "(load_replay_events h payload = Inr [] \<longrightarrow>
      start_replay_session h st path payload spd now = Inl (ValueError ''events file is empty'')
      \<and> (\<exists>st'. replay_start h st d raw (Some path) payload now_stop now
                  = (Failure 400 ''events file is empty'', st', None)))
   \<and> (unwrap_payload payload = JList xs \<and> records xs = [] \<longrightarrow> load_replay_events h payload = Inr [])"
proof (intro conjI impI)
  assume l: "load_replay_events h payload = Inr []"
  show s: "start_replay_session h st path payload spd now = Inl (ValueError ''events file is empty'')"
    using l by (simp add: start_replay_session_def)
  have "\<And>st1 spd1. start_replay_session h st1 path payload spd1 now = Inl (ValueError ''events file is empty'')"
    using l by (simp add: start_replay_session_def)
  then show "\<exists>st'. replay_start h st d raw (Some path) payload now_stop now
                  = (Failure 400 ''events file is empty'', st', None)"
    by (simp add: replay_start_def Let_def)
next
  assume "unwrap_payload payload = JList xs \<and> records xs = []"
  then show "load_replay_events h payload = Inr []"
    by (simp add: load_no_records)
qed

theorem empty_trace_rejected_witness:
  "unwrap_payload (JList [JInt 1, JStr ''a'']) = JList [JInt 1, JStr ''a'']
   \<and> records [JInt 1, JStr ''a''] = []
   \<and> load_replay_events example_host (JList [JInt 1, JStr ''a'']) = Inr []
   \<and> start_replay_session example_host (initial_replay_state example_host) ''t.json''
        (JList [JInt 1, JStr ''a'']) 1 ''12:00'' = Inl (ValueError ''events file is empty'')
   \<and> (\<exists>st'. replay_start example_host (initial_replay_state example_host) [] [] (Some ''t.json'')
               (JList [JInt 1, JStr ''a'']) ''11:59'' ''12:00''
             = (Failure 400 ''events file is empty'', st', None))"
proof -
  have u: "unwrap_payload (JList [JInt 1, JStr ''a'']) = JList [JInt 1, JStr ''a'']
           \<and> records [JInt 1, JStr ''a''] = []" by simp
  from empty_trace_rejected [of example_host "JList [JInt 1, JStr ''a'']" "initial_replay_state example_host"
         "''t.json''" 1 "''12:00''" "[]" "[]" "''11:59''" "[JInt 1, JStr ''a'']"] u
  show ?thesis by blast
qed

lemma start_replay_session_fails:
  assumes "load_replay_events h payload = Inl (ValueError msg)
           \<or> load_replay_events h payload = Inr [] \<and> msg = ''events file is empty''"
  shows "start_replay_session h st path payload spd now = Inl (ValueError msg)"
  using assms by (auto simp: start_replay_session_def)

text \<open>
  Claim C3, as the code has it. When the load fails (the document is not an array) or
  yields no event, \<^verbatim>\<open>_start_replay_session\<close> raises before it touches the state, so it
  allocates no epoch; the start handler returns status 400 with the message and starts
  no worker, and its \<^verbatim>\<open>except\<close> branch then records the failure in the shared state:
  \<^verbatim>\<open>running\<close> and \<^verbatim>\<open>completed\<close> are false, \<^verbatim>\<open>events_path\<close> is the resolved path,
  \<^verbatim>\<open>error\<close> is the message and \<^verbatim>\<open>finished_at\<close> is the time of the failure. When no
  session was running every other field, the session id among them, is as before; a
  running session is stopped first, with the reason \<^verbatim>\<open>restarted\<close>.
\<close>

theorem failed_start_records_error:
  "(load_replay_events h payload = Inl (ValueError msg)
      \<or> load_replay_events h payload = Inr [] \<and> msg = ''events file is empty'' \<longrightarrow>
      start_replay_session h st path payload spd now = Inl (ValueError msg)
      \<and> replay_start h st d raw (Some path) payload now_stop now
          = (Failure 400 msg,
             (if running st then stop_replay_session st ''restarted'' now_stop else st)
               \<lparr>running := False, completed := False, events_path := path,
                error := Some msg, finished_at := Some now\<rparr>,
             None)
      \<and> (\<not> running st \<longrightarrow>
           fst (snd (replay_start h st d raw (Some path) payload now_stop now))
             = st\<lparr>completed := False, events_path := path, error := Some msg, finished_at := Some now\<rparr>))"
proof (intro impI)
  assume a: "load_replay_events h payload = Inl (ValueError msg)
      \<or> load_replay_events h payload = Inr [] \<and> msg = ''events file is empty''"
  have s: "\<And>st1 spd1. start_replay_session h st1 path payload spd1 now = Inl (ValueError msg)"
    using a by (rule start_replay_session_fails)
  have r: "replay_start h st d raw (Some path) payload now_stop now
          = (Failure 400 msg,
             (if running st then stop_replay_session st ''restarted'' now_stop else st)
               \<lparr>running := False, completed := False, events_path := path,
                error := Some msg, finished_at := Some now\<rparr>,
             None)"
    by (simp add: replay_start_def Let_def s)
  have "\<not> running st \<longrightarrow>
           fst (snd (replay_start h st d raw (Some path) payload now_stop now))
             = st\<lparr>completed := False, events_path := path, error := Some msg, finished_at := Some now\<rparr>"
    unfolding r by simp
  with s r show "start_replay_session h st path payload spd now = Inl (ValueError msg)
      \<and> replay_start h st d raw (Some path) payload now_stop now
          = (Failure 400 msg,
             (if running st then stop_replay_session st ''restarted'' now_stop else st)
               \<lparr>running := False, completed := False, events_path := path,
                error := Some msg, finished_at := Some now\<rparr>,
             None)
      \<and> (\<not> running st \<longrightarrow>
           fst (snd (replay_start h st d raw (Some path) payload now_stop now))
             = st\<lparr>completed := False, events_path := path, error := Some msg, finished_at := Some now\<rparr>)"
    by blast
qed

theorem failed_start_records_error_witness:
  "load_replay_events example_host (JInt 3) = Inl (ValueError ''events file must be a JSON array'')
   \<and> \<not> running (initial_replay_state example_host)
   \<and> start_replay_session example_host (initial_replay_state example_host) ''t.json'' (JInt 3) 1 ''12:00''
       = Inl (ValueError ''events file must be a JSON array'')
   \<and> fst (snd (replay_start example_host (initial_replay_state example_host) [] [] (Some ''t.json'')
                  (JInt 3) ''11:59'' ''12:00''))
       = (initial_replay_state example_host)
           \<lparr>completed := False, events_path := ''t.json'',
            error := Some ''events file must be a JSON array'', finished_at := Some ''12:00''\<rparr>"
proof -
  have l: "load_replay_events example_host (JInt 3) = Inl (ValueError ''events file must be a JSON array'')"
    by (simp add: load_replay_events_def)
  have n: "\<not> running (initial_replay_state example_host)"
    by (simp add: initial_replay_state_def)
  from failed_start_records_error [of example_host "JInt 3" "''events file must be a JSON array''"
         "initial_replay_state example_host" "''t.json''" 1 "''12:00''" "[]" "[]" "''11:59''"] l n
  show ?thesis by blast
qed

text \<open>
  Claim C3 as stated fails: from the initial state, a start on an empty array changes
  the shared state; its \<^verbatim>\<open>error\<close> field goes from null to the message.
\<close>

theorem failed_start_changes_state:
  "fst (snd (replay_start example_host (initial_replay_state example_host) [] [] (Some ''t.json'')
               (JList []) ''11:59'' ''12:00''))
     \<noteq> initial_replay_state example_host
   \<and> error (initial_replay_state example_host) = None
   \<and> error (fst (snd (replay_start example_host (initial_replay_state example_host) [] [] (Some ''t.json'')
               (JList []) ''11:59'' ''12:00''))) = Some ''events file is empty''"
proof -
  have l: "load_replay_events example_host (JList []) = Inr []"
    by (simp add: load_replay_events_def)
  have s: "\<And>st1 spd1. start_replay_session example_host st1 ''t.json'' (JList []) spd1 ''12:00''
           = Inl (ValueError ''events file is empty'')"
    by (simp add: start_replay_session_def l)
  have r: "fst (snd (replay_start example_host (initial_replay_state example_host) [] [] (Some ''t.json'')
               (JList []) ''11:59'' ''12:00''))
        = (initial_replay_state example_host)
           \<lparr>running := False, completed := False, events_path := ''t.json'',
            error := Some ''events file is empty'', finished_at := Some ''12:00''\<rparr>"
    by (simp add: replay_start_def Let_def s initial_replay_state_def)
  have e: "error (initial_replay_state example_host) = None"
    by (simp add: initial_replay_state_def)
  have "error (fst (snd (replay_start example_host (initial_replay_state example_host) [] [] (Some ''t.json'')
               (JList []) ''11:59'' ''12:00''))) = Some ''events file is empty''"
    unfolding r by simp
  with e show ?thesis by auto
qed

text \<open>
  Claim C5, as the code has it. Two stops in a row with the default reason both give a
  snapshot with \<^verbatim>\<open>running\<close> and \<^verbatim>\<open>completed\<close> false and \<^verbatim>\<open>error\<close> null; the second
  snapshot differs from the first in exactly two fields: \<^verbatim>\<open>session_id\<close> is one higher
  again and \<^verbatim>\<open>finished_at\<close> is the time of the second call.
\<close>

theorem stop_twice:
  "replay_stop (replay_stop st t1) t2
     = (replay_stop st t1)\<lparr>session_id := session_id (replay_stop st t1) + 1, finished_at := Some t2\<rparr>
   \<and> running (replay_stop st t1) = False
   \<and> running (replay_stop (replay_stop st t1) t2) = False
   \<and> completed (replay_stop st t1) = False
   \<and> completed (replay_stop (replay_stop st t1) t2) = False
   \<and> error (replay_stop st t1) = None
   \<and> error (replay_stop (replay_stop st t1) t2) = None"
  by (simp add: replay_stop_def stop_replay_session_def)

text \<open>
  Claim C5 as stated fails: the second stop does not return the snapshot of the first,
  even at the same clock reading, since the session id goes from 1 to 2.
\<close>

theorem stop_twice_differs:
  "replay_stop (replay_stop (initial_replay_state example_host) ''12:00'') ''12:00''
     \<noteq> replay_stop (initial_replay_state example_host) ''12:00''
   \<and> session_id (replay_stop (initial_replay_state example_host) ''12:00'') = 1
   \<and> session_id (replay_stop (replay_stop (initial_replay_state example_host) ''12:00'') ''12:00'') = 2"
proof -
  have a: "session_id (replay_stop (initial_replay_state example_host) ''12:00'') = 1"
    by (simp add: replay_stop_def stop_replay_session_def initial_replay_state_def)
  have b: "session_id (replay_stop (replay_stop (initial_replay_state example_host) ''12:00'') ''12:00'') = 2"
    by (simp add: replay_stop_def stop_replay_session_def initial_replay_state_def)
  from a b show ?thesis by auto
qed

text \<open>
  Claim C10. Every stop, whatever the state and the reason, leaves \<^verbatim>\<open>completed\<close> and
  \<^verbatim>\<open>running\<close> false and the session id one higher; so does a stop of a session that
  had finished (\<^verbatim>\<open>running\<close> false, \<^verbatim>\<open>completed\<close> true), where no worker is active.
\<close>

theorem stop_clears_completed:
  "completed (stop_replay_session st reason now) = False
   \<and> running (stop_replay_session st reason now) = False
   \<and> session_id (stop_replay_session st reason now) = session_id st + 1
   \<and> completed (replay_stop (st\<lparr>running := False, completed := True\<rparr>) now) = False
   \<and> running (replay_stop (st\<lparr>running := False, completed := True\<rparr>) now) = False
   \<and> session_id (replay_stop (st\<lparr>running := False, completed := True\<rparr>) now) = session_id st + 1"
  by (simp add: replay_stop_def stop_replay_session_def)

section \<open>Properties of the command history\<close>

lemma history_append_length:
  "length hist \<le> MAX_HISTORY \<Longrightarrow> length (history_append hist e) \<le> MAX_HISTORY"
  by (auto simp: history_append_def Let_def)

lemma terminal_notify_cases:
  "terminal_notify h now hist data = (False, hist, None)
   \<or> (\<exists>e. terminal_notify h now hist data = (True, history_append hist e, Some e))"
  by (cases data) (auto simp: terminal_notify_def Let_def split: prod.splits)

lemma bash_notify_cases:
  "bash_notify h now hist data = (hist, None)
   \<or> (\<exists>e. bash_notify h now hist data = (history_append hist e, Some e))"
  by (cases data) (auto simp: bash_notify_def Let_def split: prod.splits)

lemma produce_cases:
  "produce h (hist, sent) p = (hist, sent)
   \<or> (\<exists>e. produce h (hist, sent) p = (history_append hist e, sent @ [e]))"
proof (cases p)
  case (LogCommand now source command result is_error)
  then show ?thesis by (simp add: log_command_def Let_def)
next
  case (TerminalNotify now data)
  with terminal_notify_cases [of h now hist data] show ?thesis by auto
next
  case (BashNotify now data)
  with bash_notify_cases [of h now hist data] show ?thesis by auto
qed

lemma last_window_append:
  assumes "hist = drop (length sent - MAX_HISTORY) sent"
  shows "history_append hist e = drop (length (sent @ [e]) - MAX_HISTORY) (sent @ [e])"
proof -
  have len: "length hist \<le> MAX_HISTORY" using assms by (simp add: MAX_HISTORY_def)
  show ?thesis
  proof (cases "length sent < MAX_HISTORY")
    case True
    with assms show ?thesis by (simp add: history_append_def Let_def)
  next
    case False
    then have l: "length hist = MAX_HISTORY" using assms by simp
    have tl1: "\<And>ys :: entry list. tl ys = drop 1 ys"
      by (simp add: drop_Suc)
    have h: "hist @ [e] = drop (length sent - MAX_HISTORY) (sent @ [e])"
      by (subst assms) simp
    have "history_append hist e = tl (hist @ [e])"
      using l by (simp add: history_append_def Let_def)
    also have "\<dots> = drop 1 (drop (length sent - MAX_HISTORY) (sent @ [e]))"
      by (simp only: tl1 h)
    also have "\<dots> = drop (1 + (length sent - MAX_HISTORY)) (sent @ [e])"
      by (simp only: drop_drop)
    also have "1 + (length sent - MAX_HISTORY) = length (sent @ [e]) - MAX_HISTORY"
      using False by simp
    finally show ?thesis .
  qed
qed

lemma produce_last_window: "last_window c \<Longrightarrow> last_window (produce h c p)"
proof -
  assume a: "last_window c"
  obtain hist sent where c: "c = (hist, sent)" by (cases c)
  from a c have w: "hist = drop (length sent - MAX_HISTORY) sent" by (simp add: last_window_def)
  from produce_cases [of h hist sent p] show ?thesis
  proof
    assume "produce h (hist, sent) p = (hist, sent)"
    with a c show ?thesis by simp
  next
    assume "\<exists>e. produce h (hist, sent) p = (history_append hist e, sent @ [e])"
    then obtain e where "produce h (hist, sent) p = (history_append hist e, sent @ [e])" ..
    with last_window_append [OF w, of e] c show ?thesis by (simp add: last_window_def)
  qed
qed

lemma foldl_last_window: "last_window c \<Longrightarrow> last_window (foldl (produce h) c ps)"
  by (induction ps arbitrary: c) (simp_all add: produce_last_window)

lemma produce_all_last_window: "last_window (produce_all h ps)"
  unfolding produce_all_def by (rule foldl_last_window) (simp add: last_window_def)

text \<open>
  Claim C8. The capacity is 100. After any sequence of requests by the three producers
  (\<^verbatim>\<open>log_command\<close>, \<^verbatim>\<open>terminal_notify\<close>, \<^verbatim>\<open>bash_notify\<close>) on the empty history, the
  history is at most 100 long and is the last 100 of the entries appended, in the order
  of their appends; when 100 + k entries were appended, exactly 100 remain and the k
  oldest are gone. One request of any producer keeps a history within the capacity.
\<close>

theorem history_bounded:
  "MAX_HISTORY = 100
   \<and> length (fst (produce_all h ps)) \<le> MAX_HISTORY
   \<and> fst (produce_all h ps)
       = drop (length (snd (produce_all h ps)) - MAX_HISTORY) (snd (produce_all h ps))
   \<and> (length (snd (produce_all h ps)) = MAX_HISTORY + k \<longrightarrow>
        length (fst (produce_all h ps)) = MAX_HISTORY
        \<and> fst (produce_all h ps) = drop k (snd (produce_all h ps)))
   \<and> (length hist \<le> MAX_HISTORY \<longrightarrow> length (fst (produce h (hist, sent) p)) \<le> MAX_HISTORY)"
proof -
  have w: "fst (produce_all h ps)
       = drop (length (snd (produce_all h ps)) - MAX_HISTORY) (snd (produce_all h ps))"
    using produce_all_last_window [of h ps] by (simp add: last_window_def)
  have l: "length (fst (produce_all h ps)) \<le> MAX_HISTORY"
    by (subst w) simp
  have k: "length (snd (produce_all h ps)) = MAX_HISTORY + k \<longrightarrow>
        length (fst (produce_all h ps)) = MAX_HISTORY
        \<and> fst (produce_all h ps) = drop k (snd (produce_all h ps))"
  proof
    assume a: "length (snd (produce_all h ps)) = MAX_HISTORY + k"
    have "fst (produce_all h ps) = drop k (snd (produce_all h ps))"
      by (subst w) (simp add: a)
    moreover from this a have "length (fst (produce_all h ps)) = MAX_HISTORY" by simp
    ultimately show "length (fst (produce_all h ps)) = MAX_HISTORY
        \<and> fst (produce_all h ps) = drop k (snd (produce_all h ps))" by simp
  qed
  have p: "length hist \<le> MAX_HISTORY \<longrightarrow> length (fst (produce h (hist, sent) p)) \<le> MAX_HISTORY"
    using produce_cases [of h hist sent p] history_append_length [of hist] by auto
  from w l k p show ?thesis by (simp add: MAX_HISTORY_def)
qed

lemma produce_log_command_sent:
  "length (snd (produce h c (LogCommand now source command result is_error))) = Suc (length (snd c))"
  by (cases c) (simp add: log_command_def Let_def)

lemma foldl_log_command_sent:
  "length (snd (foldl (produce h) c (replicate n (LogCommand now source command result is_error))))
     = length (snd c) + n"
  by (induction n arbitrary: c) (simp_all add: produce_log_command_sent)

theorem history_bounded_witness:
  "length (snd (produce_all example_host
             (replicate 101 (LogCommand (''12:00'', 0) (JStr ''webui'') (JStr ''ls'') JNull (JBool False)))))
     = MAX_HISTORY + 1
   \<and> length (fst (produce_all example_host
             (replicate 101 (LogCommand (''12:00'', 0) (JStr ''webui'') (JStr ''ls'') JNull (JBool False)))))
     = MAX_HISTORY
   \<and> fst (produce_all example_host
             (replicate 101 (LogCommand (''12:00'', 0) (JStr ''webui'') (JStr ''ls'') JNull (JBool False))))
     = drop 1 (snd (produce_all example_host
             (replicate 101 (LogCommand (''12:00'', 0) (JStr ''webui'') (JStr ''ls'') JNull (JBool False)))))
   \<and> length ([] :: entry list) \<le> MAX_HISTORY
   \<and> length (fst (produce example_host ([], []) (TerminalNotify (''12:00'', 0) (JDict [(''command'', JStr ''ls'')]))))
     \<le> MAX_HISTORY"
proof -
  let ?ps = "replicate 101 (LogCommand (''12:00'', 0) (JStr ''webui'') (JStr ''ls'') JNull (JBool False))"
  have n: "length (snd (produce_all example_host ?ps)) = MAX_HISTORY + 1"
    unfolding produce_all_def by (simp add: foldl_log_command_sent MAX_HISTORY_def)
  have e: "length ([] :: entry list) \<le> MAX_HISTORY" by simp
  from history_bounded [of example_host ?ps 1 "[]" "[]" "TerminalNotify (''12:00'', 0) (JDict [(''command'', JStr ''ls'')])"]
       n e
  show ?thesis by blast
qed

lemma dict_update_payload:
  "dict_update d (timestamp_payload now)
     = AList.update ''ts_ms'' (JInt (snd now)) (AList.update ''timestamp'' (JStr (fst now)) d)"
  by (simp add: dict_update_def timestamp_payload_def)

lemma keys_differ: "''timestamp'' \<noteq> ''ts_ms''" by simp

lemma stamp_both:
  assumes "ts \<noteq> JNull" "ms \<noteq> JNull"
    and "e1 = (if ts \<noteq> JNull then AList.update ''timestamp'' ts b else b)"
    and "e2 = (if ms \<noteq> JNull then AList.update ''ts_ms'' ms e1 else e1)"
    and "e = (if map_of e2 ''timestamp'' = None \<or> map_of e2 ''ts_ms'' = None
              then dict_update e2 (timestamp_payload now) else e2)"
  shows "map_of e ''timestamp'' = Some ts \<and> map_of e ''ts_ms'' = Some ms"
  using assms keys_differ by (simp add: update_conv' del: list.inject)

lemma stamp_one:
  assumes "ts = JNull \<or> ms = JNull"
    and "map_of b ''timestamp'' = None" "map_of b ''ts_ms'' = None"
    and "e1 = (if ts \<noteq> JNull then AList.update ''timestamp'' ts b else b)"
    and "e2 = (if ms \<noteq> JNull then AList.update ''ts_ms'' ms e1 else e1)"
    and "e = (if map_of e2 ''timestamp'' = None \<or> map_of e2 ''ts_ms'' = None
              then dict_update e2 (timestamp_payload now) else e2)"
  shows "map_of e ''timestamp'' = Some (JStr (fst now)) \<and> map_of e ''ts_ms'' = Some (JInt (snd now))"
proof -
  have "map_of e2 ''timestamp'' = None \<or> map_of e2 ''ts_ms'' = None"
    using assms(1-5) keys_differ by (auto simp: update_conv' simp del: list.inject)
  then have "e = dict_update e2 (timestamp_payload now)"
    using assms(6) by simp
  then show ?thesis
    using keys_differ by (simp add: dict_update_payload update_conv' del: list.inject)
qed

lemma terminal_notify_dict:
  assumes "d \<noteq> []"
    and "normalize_grep_no_match h (dict_get d ''command'' (JStr [])) (dict_get d ''result'' JNull)
       (dict_get d ''is_error'' (JBool False)) = (result, is_error)"
    and "b = [(''source'', JStr ''terminal''), (''command'', dict_get d ''command'' (JStr [])),
                (''result'', result), (''is_error'', is_error)]"
    and "e1 = (if dict_get d ''timestamp'' JNull \<noteq> JNull then AList.update ''timestamp'' (dict_get d ''timestamp'' JNull) b else b)"
    and "e2 = (if dict_get d ''ts_ms'' JNull \<noteq> JNull then AList.update ''ts_ms'' (dict_get d ''ts_ms'' JNull) e1 else e1)"
    and "e = (if map_of e2 ''timestamp'' = None \<or> map_of e2 ''ts_ms'' = None
              then dict_update e2 (timestamp_payload now) else e2)"
  shows "terminal_notify h now hist (JDict d) = (True, history_append hist e, Some e)"
  unfolding terminal_notify_def Let_def assms(3-6) using assms(1,2) by simp


text \<open>
  Claim C9. A \<^verbatim>\<open>terminal_notify\<close> request with a non-empty body appends one entry. The
  entry carries the request's \<^verbatim>\<open>timestamp\<close> and \<^verbatim>\<open>ts_ms\<close> when both are supplied (present
  and not null); when either is missing, both fields of the entry are the server's clock
  reading, so a single supplied value is discarded.
\<close>

theorem terminal_notify_timestamps:
  "d \<noteq> [] \<longrightarrow>
     (\<exists>e. terminal_notify h now hist (JDict d) = (True, history_append hist e, Some e)
        \<and> (dict_get d ''timestamp'' JNull \<noteq> JNull \<and> dict_get d ''ts_ms'' JNull \<noteq> JNull \<longrightarrow>
             map_of e ''timestamp'' = Some (dict_get d ''timestamp'' JNull)
             \<and> map_of e ''ts_ms'' = Some (dict_get d ''ts_ms'' JNull))
        \<and> (dict_get d ''timestamp'' JNull = JNull \<or> dict_get d ''ts_ms'' JNull = JNull \<longrightarrow>
             map_of e ''timestamp'' = Some (JStr (fst now))
             \<and> map_of e ''ts_ms'' = Some (JInt (snd now))))"
proof
  assume ne: "d \<noteq> []"
  obtain result is_error where n:
    "normalize_grep_no_match h (dict_get d ''command'' (JStr [])) (dict_get d ''result'' JNull)
       (dict_get d ''is_error'' (JBool False)) = (result, is_error)"
    by (cases "normalize_grep_no_match h (dict_get d ''command'' (JStr [])) (dict_get d ''result'' JNull)
       (dict_get d ''is_error'' (JBool False))")
  define ts where "ts = dict_get d ''timestamp'' JNull"
  define ms where "ms = dict_get d ''ts_ms'' JNull"
  define b where "b = [(''source'', JStr ''terminal''), (''command'', dict_get d ''command'' (JStr [])),
                (''result'', result), (''is_error'', is_error)]"
  define e1 where "e1 = (if ts \<noteq> JNull then AList.update ''timestamp'' ts b else b)"
  define e2 where "e2 = (if ms \<noteq> JNull then AList.update ''ts_ms'' ms e1 else e1)"
  define e where "e = (if map_of e2 ''timestamp'' = None \<or> map_of e2 ''ts_ms'' = None
              then dict_update e2 (timestamp_payload now) else e2)"
  have nb: "map_of b ''timestamp'' = None" "map_of b ''ts_ms'' = None"
    by (simp_all add: b_def)
  have t: "terminal_notify h now hist (JDict d) = (True, history_append hist e, Some e)"
    by (rule terminal_notify_dict [OF ne n b_def e1_def [unfolded ts_def] e2_def [unfolded ms_def] e_def])
  have both: "ts \<noteq> JNull \<and> ms \<noteq> JNull \<longrightarrow>
      map_of e ''timestamp'' = Some ts \<and> map_of e ''ts_ms'' = Some ms"
    using stamp_both [OF _ _ e1_def e2_def e_def] by blast
  have one: "ts = JNull \<or> ms = JNull \<longrightarrow>
      map_of e ''timestamp'' = Some (JStr (fst now)) \<and> map_of e ''ts_ms'' = Some (JInt (snd now))"
    using stamp_one [OF _ nb e1_def e2_def e_def] by blast
  from t both one show "\<exists>e. terminal_notify h now hist (JDict d) = (True, history_append hist e, Some e)
        \<and> (dict_get d ''timestamp'' JNull \<noteq> JNull \<and> dict_get d ''ts_ms'' JNull \<noteq> JNull \<longrightarrow>
             map_of e ''timestamp'' = Some (dict_get d ''timestamp'' JNull)
             \<and> map_of e ''ts_ms'' = Some (dict_get d ''ts_ms'' JNull))
        \<and> (dict_get d ''timestamp'' JNull = JNull \<or> dict_get d ''ts_ms'' JNull = JNull \<longrightarrow>
             map_of e ''timestamp'' = Some (JStr (fst now))
             \<and> map_of e ''ts_ms'' = Some (JInt (snd now)))"
    unfolding ts_def ms_def by blast
qed

theorem terminal_notify_timestamps_witness:
  "[(''command'', JStr ''ls''), (''timestamp'', JStr ''09:00''), (''ts_ms'', JInt 7)] \<noteq> []
   \<and> dict_get [(''command'', JStr ''ls''), (''timestamp'', JStr ''09:00''), (''ts_ms'', JInt 7)] ''timestamp'' JNull = JStr ''09:00''
   \<and> dict_get [(''command'', JStr ''ls''), (''timestamp'', JStr ''09:00''), (''ts_ms'', JInt 7)] ''ts_ms'' JNull = JInt 7
   \<and> (\<exists>e. terminal_notify example_host (''12:00'', 42) []
              (JDict [(''command'', JStr ''ls''), (''timestamp'', JStr ''09:00''), (''ts_ms'', JInt 7)])
             = (True, history_append [] e, Some e)
           \<and> map_of e ''timestamp'' = Some (JStr ''09:00'') \<and> map_of e ''ts_ms'' = Some (JInt 7))
   \<and> [(''command'', JStr ''ls''), (''timestamp'', JStr ''09:00'')] \<noteq> []
   \<and> dict_get [(''command'', JStr ''ls''), (''timestamp'', JStr ''09:00'')] ''ts_ms'' JNull = JNull
   \<and> (\<exists>e. terminal_notify example_host (''12:00'', 42) []
              (JDict [(''command'', JStr ''ls''), (''timestamp'', JStr ''09:00'')])
             = (True, history_append [] e, Some e)
           \<and> map_of e ''timestamp'' = Some (JStr ''12:00'') \<and> map_of e ''ts_ms'' = Some (JInt 42))"
proof -
  define d2 where "d2 = [(''command'', JStr ''ls''), (''timestamp'', JStr ''09:00''), (''ts_ms'', JInt 7)]"
  define d1 where "d1 = [(''command'', JStr ''ls''), (''timestamp'', JStr ''09:00'')]"
  have a: "d2 \<noteq> []" "dict_get d2 ''timestamp'' JNull = JStr ''09:00''" "dict_get d2 ''ts_ms'' JNull = JInt 7"
    by (simp_all add: dict_get_def d2_def)
  have b: "d1 \<noteq> []" "dict_get d1 ''ts_ms'' JNull = JNull"
    by (simp_all add: dict_get_def d1_def)
  have n: "JStr ''09:00'' \<noteq> JNull" "JInt 7 \<noteq> JNull" by simp_all
  from terminal_notify_timestamps [of d2 example_host "(''12:00'', 42)" "[]"] a(1)
  obtain e where e: "terminal_notify example_host (''12:00'', 42) [] (JDict d2) = (True, history_append [] e, Some e)"
     "dict_get d2 ''timestamp'' JNull \<noteq> JNull \<and> dict_get d2 ''ts_ms'' JNull \<noteq> JNull \<longrightarrow>
             map_of e ''timestamp'' = Some (dict_get d2 ''timestamp'' JNull)
             \<and> map_of e ''ts_ms'' = Some (dict_get d2 ''ts_ms'' JNull)"
    by blast
  from e(2) a n have "map_of e ''timestamp'' = Some (JStr ''09:00'') \<and> map_of e ''ts_ms'' = Some (JInt 7)"
    by simp
  with e(1) have 2: "\<exists>e. terminal_notify example_host (''12:00'', 42) [] (JDict d2) = (True, history_append [] e, Some e)
           \<and> map_of e ''timestamp'' = Some (JStr ''09:00'') \<and> map_of e ''ts_ms'' = Some (JInt 7)"
    by blast
  from terminal_notify_timestamps [of d1 example_host "(''12:00'', 42)" "[]"] b(1)
  obtain e' where e': "terminal_notify example_host (''12:00'', 42) [] (JDict d1) = (True, history_append [] e', Some e')"
     "dict_get d1 ''timestamp'' JNull = JNull \<or> dict_get d1 ''ts_ms'' JNull = JNull \<longrightarrow>
             map_of e' ''timestamp'' = Some (JStr (fst (''12:00'', 42::int)))
             \<and> map_of e' ''ts_ms'' = Some (JInt (snd (''12:00'', 42::int)))"
    by blast
  from e'(2) b have "map_of e' ''timestamp'' = Some (JStr ''12:00'') \<and> map_of e' ''ts_ms'' = Some (JInt 42)"
    by simp
  with e'(1) have 1: "\<exists>e. terminal_notify example_host (''12:00'', 42) [] (JDict d1) = (True, history_append [] e, Some e)
           \<and> map_of e ''timestamp'' = Some (JStr ''12:00'') \<and> map_of e ''ts_ms'' = Some (JInt 42)"
    by blast
  from a b 1 2 show ?thesis unfolding d1_def d2_def by blast
qed

section \<open>Properties of the replay worker\<close>


lemma replay_events_append: "replay_events (xs @ ys) = replay_events xs @ replay_events ys"
  by (induction xs rule: replay_events.induct) simp_all








lemma run_Cons: "run h a c (x # xs) = run h a (step h a c x) xs"
  by (simp add: run_def)

lemma run_Nil: "run h a c [] = c"
  by (simp add: run_def)























lemma superseded_stale: "w_session_id a < session_id (rstate s) \<Longrightarrow> stale (rstate s) (w_session_id a)"
  by (simp add: stale_def)

lemma worker_step_in_flight:
  assumes "w_session_id a < session_id (rstate s)"
  shows "length (replay_events (out (fst (worker_step h a now (w, s))))) + in_flight (fst (worker_step h a now (w, s)))
           \<le> length (replay_events (out w)) + in_flight w
         \<and> session_id (rstate (snd (worker_step h a now (w, s)))) = session_id (rstate s)"
proof -
  have st: "stale (rstate s) (w_session_id a)"
    using assms by (rule superseded_stale)
  show ?thesis
  proof (cases "pc w")
    case Start
    then show ?thesis
      by (simp add: worker_step_def in_flight_def split: list.splits option.splits)
  next
    case Check1
    then show ?thesis using st
      by (simp add: worker_step_def in_flight_def split: list.splits)
  next
    case Sleep
    then show ?thesis
      by (simp add: worker_step_def in_flight_def split: list.splits option.splits)
  next
    case Check2
    then show ?thesis using st by (simp add: worker_step_def in_flight_def)
  next
    case WaitCheck
    then show ?thesis using st by (simp add: worker_step_def in_flight_def)
  next
    case WaitClients
    then show ?thesis by (simp add: worker_step_def in_flight_def)
  next
    case Emit
    then show ?thesis
      by (simp add: worker_step_def in_flight_def replay_events_append split: list.splits)
  next
    case Log
    then show ?thesis
      by (simp add: worker_step_def in_flight_def replay_events_append split: list.splits prod.splits)
  next
    case Update
    then show ?thesis
      by (simp add: worker_step_def in_flight_def replay_events_append Let_def split: list.splits)
  next
    case Final
    then show ?thesis
      by (simp add: worker_step_def in_flight_def replay_events_append Let_def)
  next
    case Returned
    then show ?thesis by (simp add: worker_step_def)
  next
    case Finished
    then show ?thesis by (simp add: worker_step_def)
  next
    case Raised
    then show ?thesis by (simp add: worker_step_def)
  qed
qed

lemma run_in_flight:
  assumes "w_session_id a < session_id (rstate s)" "list_all env_monotone sched"
  shows "length (replay_events (out (fst (run h a (w, s) sched)))) + in_flight (fst (run h a (w, s) sched))
           \<le> length (replay_events (out w)) + in_flight w"
  using assms
proof (induction sched arbitrary: w s)
  case Nil
  then show ?case by (simp add: run_Nil)
next
  case (Cons x sched)
  show ?case
  proof (cases x)
    case (Worker now)
    obtain w' s' where ws: "worker_step h a now (w, s) = (w', s')"
      by (cases "worker_step h a now (w, s)")
    from worker_step_in_flight [OF Cons.prems(1), of h now w] ws
    have le: "length (replay_events (out w')) + in_flight w' \<le> length (replay_events (out w)) + in_flight w"
      and sid: "session_id (rstate s') = session_id (rstate s)"
      by simp_all
    from Cons.prems have "length (replay_events (out (fst (run h a (w', s') sched))))
             + in_flight (fst (run h a (w', s') sched))
           \<le> length (replay_events (out w')) + in_flight w'"
      by (intro Cons.IH) (simp_all add: sid)
    with le show ?thesis by (simp add: Worker run_Cons ws)
  next
    case (Env f)
    with Cons.prems have "session_id (rstate s) \<le> session_id (rstate (f s))"
      by (simp add: epoch_monotone_def)
    with Cons.prems have "length (replay_events (out (fst (run h a (w, f s) sched))))
             + in_flight (fst (run h a (w, f s) sched))
           \<le> length (replay_events (out w)) + in_flight w"
      by (intro Cons.IH) simp_all
    then show ?thesis by (simp add: Env run_Cons)
  qed
qed

lemma check_observes_stale:
  assumes "stale (rstate s) (w_session_id a)"
    and "pc w = Check1 \<and> remaining w \<noteq> [] \<or> pc w = Check2 \<or> pc w = WaitCheck"
  shows "worker_step h a now (w, s) = (w\<lparr>pc := Returned\<rparr>, s)"
  using assms by (auto simp: worker_step_def split: list.splits)

lemma returned_step: "pc (fst c) = Returned \<Longrightarrow> fst (step h a c x) = fst c"
  by (cases x; cases c) (simp_all add: worker_step_def)

lemma returned_run: "pc (fst c) = Returned \<Longrightarrow> fst (run h a c sched) = fst c"
proof (induction sched arbitrary: c)
  case Nil
  then show ?case by (simp add: run_Nil)
next
  case (Cons x sched)
  from Cons.prems have "fst (step h a c x) = fst c" by (rule returned_step)
  with Cons show ?case by (simp add: run_Cons)
qed

lemma returned_worker_step: "pc w = Returned \<Longrightarrow> worker_step h a now (w, s) = (w, s)"
  by (simp add: worker_step_def)

lemma env_stop_monotone: "epoch_monotone (env_stop reason now)"
  by (simp add: epoch_monotone_def env_stop_def stop_replay_session_def)

lemma env_start_monotone: "epoch_monotone (env_start h path payload spd now)"
  by (simp add: epoch_monotone_def env_start_def start_replay_session_def Let_def split: sum.splits)

lemma handle_connect_monotone: "epoch_monotone handle_connect"
  by (simp add: epoch_monotone_def handle_connect_def)

lemma handle_disconnect_monotone: "epoch_monotone handle_disconnect"
  by (simp add: epoch_monotone_def handle_disconnect_def)


text \<open>
  Claim C4, as the code has it. A check that finds the session stopped or superseded
  makes the worker return at once: no event is emitted by that step or later, whatever
  is scheduled after it, and the step leaves the shared state as it is. A worker that has
  returned stays as it is. After the session id has passed the worker's own, and while
  other threads only raise it, the worker emits at most one further event, the one whose
  checks had all passed when the session was superseded (the worker is between its last
  check and the emission), and none otherwise. Stopping and starting a session only
  raise the session id.
\<close>

theorem superseded_worker_bounded:
  "(stale (rstate s) (w_session_id a)
      \<and> (pc w = Check1 \<and> remaining w \<noteq> [] \<or> pc w = Check2 \<or> pc w = WaitCheck) \<longrightarrow>
      worker_step h a now (w, s) = (w\<lparr>pc := Returned\<rparr>, s)
      \<and> out (fst (run h a (w, s) (Worker now # sched))) = out w)
   \<and> (pc w = Returned \<longrightarrow>
        fst (run h a (w, s) sched) = w \<and> worker_step h a now (w, s) = (w, s))
   \<and> (w_session_id a < session_id (rstate s) \<and> list_all env_monotone sched \<longrightarrow>
        length (replay_events (out (fst (run h a (w, s) sched))))
          \<le> length (replay_events (out w)) + in_flight w)
   \<and> (pc w \<noteq> WaitClients \<and> pc w \<noteq> Emit \<longrightarrow> in_flight w = 0)
   \<and> in_flight w \<le> 1
   \<and> epoch_monotone (env_stop reason t)
   \<and> epoch_monotone (env_start h path payload spd t)"
proof (intro conjI impI)
  assume a: "stale (rstate s) (w_session_id a)
      \<and> (pc w = Check1 \<and> remaining w \<noteq> [] \<or> pc w = Check2 \<or> pc w = WaitCheck)"
  then show r: "worker_step h a now (w, s) = (w\<lparr>pc := Returned\<rparr>, s)"
    by (intro check_observes_stale) simp_all
  have "fst (run h a (w\<lparr>pc := Returned\<rparr>, s) sched) = fst (w\<lparr>pc := Returned\<rparr>, s)"
    by (rule returned_run) simp
  then show "out (fst (run h a (w, s) (Worker now # sched))) = out w"
    by (simp add: run_Cons r)
next
  assume p: "pc w = Returned"
  then show "fst (run h a (w, s) sched) = w"
    using returned_run [of "(w, s)" h a sched] by simp
  from p show "worker_step h a now (w, s) = (w, s)"
    by (rule returned_worker_step)
next
  assume "w_session_id a < session_id (rstate s) \<and> list_all env_monotone sched"
  then have "length (replay_events (out (fst (run h a (w, s) sched)))) + in_flight (fst (run h a (w, s) sched))
           \<le> length (replay_events (out w)) + in_flight w"
    by (intro run_in_flight) simp_all
  then show "length (replay_events (out (fst (run h a (w, s) sched))))
          \<le> length (replay_events (out w)) + in_flight w"
    by simp
next
  assume "pc w \<noteq> WaitClients \<and> pc w \<noteq> Emit"
  then show "in_flight w = 0" by (simp add: in_flight_def)
next
  show "in_flight w \<le> 1" by (simp add: in_flight_def)
  show "epoch_monotone (env_stop reason t)" by (rule env_stop_monotone)
  show "epoch_monotone (env_start h path payload spd t)" by (rule env_start_monotone)
qed

lemma example_stale:
  "stale (rstate (env_stop ''stopped'' ''12:02'' example_shared)) (w_session_id example_args)
   \<and> w_session_id example_args < session_id (rstate (env_stop ''stopped'' ''12:02'' example_shared))
   \<and> pc ((init_worker example_args)\<lparr>pc := Check2\<rparr>) = Check2
   \<and> pc ((init_worker example_args)\<lparr>pc := Returned\<rparr>) = Returned"
  by code_simp

lemma example_schedule_monotone:
  "list_all env_monotone [Env (env_stop ''restarted'' ''12:03''), Worker (''12:04'', 0), Env handle_connect]"
  by (simp add: env_stop_monotone handle_connect_monotone)

theorem superseded_worker_bounded_witness:
  "stale (rstate (env_stop ''stopped'' ''12:02'' example_shared)) (w_session_id example_args)
   \<and> pc ((init_worker example_args)\<lparr>pc := Check2\<rparr>) = Check2
   \<and> worker_step example_host example_args (''12:03'', 0)
        ((init_worker example_args)\<lparr>pc := Check2\<rparr>, env_stop ''stopped'' ''12:02'' example_shared)
       = ((init_worker example_args)\<lparr>pc := Check2\<rparr>\<lparr>pc := Returned\<rparr>, env_stop ''stopped'' ''12:02'' example_shared)
   \<and> pc ((init_worker example_args)\<lparr>pc := Returned\<rparr>) = Returned
   \<and> fst (run example_host example_args
             ((init_worker example_args)\<lparr>pc := Returned\<rparr>, env_stop ''stopped'' ''12:02'' example_shared)
             [Env (env_stop ''restarted'' ''12:03''), Worker (''12:04'', 0), Env handle_connect])
       = (init_worker example_args)\<lparr>pc := Returned\<rparr>
   \<and> w_session_id example_args < session_id (rstate (env_stop ''stopped'' ''12:02'' example_shared))
   \<and> list_all env_monotone [Env (env_stop ''restarted'' ''12:03''), Worker (''12:04'', 0), Env handle_connect]
   \<and> length (replay_events (out (fst (run example_host example_args
             ((init_worker example_args)\<lparr>pc := Check2\<rparr>, env_stop ''stopped'' ''12:02'' example_shared)
             [Env (env_stop ''restarted'' ''12:03''), Worker (''12:04'', 0), Env handle_connect]))))
       \<le> length (replay_events (out ((init_worker example_args)\<lparr>pc := Check2\<rparr>)))
           + in_flight ((init_worker example_args)\<lparr>pc := Check2\<rparr>)"
  using superseded_worker_bounded [of "env_stop ''stopped'' ''12:02'' example_shared" example_args
          "(init_worker example_args)\<lparr>pc := Check2\<rparr>" example_host "(''12:03'', 0)"
          "[Env (env_stop ''restarted'' ''12:03''), Worker (''12:04'', 0), Env handle_connect]"]
        superseded_worker_bounded [of "env_stop ''stopped'' ''12:02'' example_shared" example_args
          "(init_worker example_args)\<lparr>pc := Returned\<rparr>" example_host "(''12:03'', 0)"
          "[Env (env_stop ''restarted'' ''12:03''), Worker (''12:04'', 0), Env handle_connect]"]
        example_stale example_schedule_monotone
  by blast

text \<open>
  Claim C4 as stated fails. The worker of session 1 has passed every check of its first
  iteration when another thread stops the session and starts session 3; nothing has
  been emitted so far. The next step of the old worker emits its event, under session
  id 1, though the current session id is 3.
\<close>

theorem superseded_worker_emits:
  "w_session_id example_args = 1
   \<and> session_id (rstate (snd (run example_host example_args (init_worker example_args, example_shared)
                  restart_schedule))) = 3
   \<and> replay_events (out (fst (run example_host example_args (init_worker example_args, example_shared)
                  restart_schedule))) = []
   \<and> replay_events (out (fst (run example_host example_args (init_worker example_args, example_shared)
                  (restart_schedule @ [Worker (''12:03'', 0)]))))
     = [ReplayEvent 1 0 2 [(''timestamp'', JFloat 0), (''event_type'', JStr ''file_read'')] ''t.json'' ''12:03'']"
  by code_simp

end
